theory Spec2Isabelle
  imports Complex_Main
begin

section \<open>The relay of Server.js\<close>

text \<open>
  Server.js registers one route, \<^verbatim>\<open>POST /api/anthropic\<close>. Its handler reads three
  properties of \<^verbatim>\<open>req.body\<close>, fills two of them in with \<^verbatim>\<open>||\<close>, awaits
  \<^verbatim>\<open>anthropic.messages.create\<close> and answers with \<^verbatim>\<open>res.json\<close>; whatever is thrown
  inside the \<^verbatim>\<open>try\<close> block is logged and answered with status 500. The second copy of
  the server among the unnamed files differs from Server.js in the credential literal only.
\<close>

subsection \<open>JavaScript values\<close>

text \<open>
  The values that \<^verbatim>\<open>express.json()\<close> can leave in \<^verbatim>\<open>req.body\<close> and that the upstream
  client returns: JSON values, and \<^verbatim>\<open>undefined\<close> for what is absent. \<open>JNum\<close> holds
  the value of a parsed number (the handler only tests it against zero and passes it on);
  \<open>JObj\<close> holds the own properties of a parsed object in insertion order.
\<close>

datatype json =
    JUndefined
  | JNull
  | JBool bool
  | JNum rat
  | JStr string
  | JArr "json list"
  | JObj "(string \<times> json) list"

text \<open>An \<^verbatim>\<open>Error\<close> object, of which the handler reads \<^verbatim>\<open>error.message\<close> only.\<close>

record js_error =
  message :: string

text \<open>JavaScript's \<^verbatim>\<open>ToBoolean\<close>, restricted to the values above.\<close>

fun truthy :: "json \<Rightarrow> bool" where
  "truthy JUndefined = False"
| "truthy JNull = False"
| "truthy (JBool b) = b"
| "truthy (JNum n) = (n \<noteq> 0)"
| "truthy (JStr s) = (s \<noteq> [])"
| "truthy (JArr xs) = True"
| "truthy (JObj kvs) = True"

text \<open>The operator \<^verbatim>\<open>a || b\<close>: the left operand when it is truthy, the right one otherwise.\<close>

definition js_or :: "json \<Rightarrow> json \<Rightarrow> json" where
  "js_or a b = (if truthy a then a else b)"

text \<open>
  Reading a property named \<open>k\<close> (one of \<^verbatim>\<open>model\<close>, \<^verbatim>\<open>max_tokens\<close>, \<^verbatim>\<open>messages\<close>) of a
  value that is neither \<^verbatim>\<open>undefined\<close> nor \<^verbatim>\<open>null\<close>: an own property of an object, and
  \<^verbatim>\<open>undefined\<close> on arrays and primitives, which have no property of these names.
\<close>

fun get_prop :: "json \<Rightarrow> string \<Rightarrow> json" where
  "get_prop (JObj kvs) k = (case map_of kvs k of Some v \<Rightarrow> v | None \<Rightarrow> JUndefined)"
| "get_prop v k = JUndefined"

text \<open>
  Line 17, \<^verbatim>\<open>const { model, max_tokens, messages } = req.body\<close>. Destructuring
  \<^verbatim>\<open>undefined\<close> or \<^verbatim>\<open>null\<close> throws a TypeError (the message is the one of V8, the
  engine of Node.js); any other value yields the three properties.
\<close>

definition quoted :: "string \<Rightarrow> string" where
  "quoted s = CHR 0x27 # s @ [CHR 0x27]"

definition not_destructurable :: "string \<Rightarrow> js_error" where
  "not_destructurable what =
     \<lparr>message = ''Cannot destructure property '' @ quoted ''model'' @ '' of '' @
        quoted ''req.body'' @ '' as it is '' @ what @ ''.''\<rparr>"

definition destructure :: "json \<Rightarrow> js_error + json \<times> json \<times> json" where
  "destructure body =
     (case body of
        JUndefined \<Rightarrow> Inl (not_destructurable ''undefined'')
      | JNull \<Rightarrow> Inl (not_destructurable ''null'')
      | _ \<Rightarrow> Inr (get_prop body ''model'', get_prop body ''max_tokens'',
                 get_prop body ''messages''))"

subsection \<open>The upstream client\<close>

text \<open>
  Lines 11 to 13 construct the client once, at process start. The environment maps a
  variable's name to its value when the variable is set; \<^verbatim>\<open>process.env.X\<close> is then a
  string, and \<^verbatim>\<open>undefined\<close> otherwise. The literal on the right of \<^verbatim>\<open>||\<close> is a secret
  and differs between the two copies of the server, so it is the parameter \<open>literal\<close>
  here and not written out.
\<close>

record client =
  apiKey :: string

definition env_or :: "string option \<Rightarrow> string \<Rightarrow> string" where
  "env_or v d = (case v of None \<Rightarrow> d | Some s \<Rightarrow> if s \<noteq> [] then s else d)"

definition anthropic :: "string \<Rightarrow> (string \<rightharpoonup> string) \<Rightarrow> client" where
  "anthropic literal env = \<lparr>apiKey = env_or (env ''ANTHROPIC_API_KEY'') literal\<rparr>"

text \<open>The argument of \<^verbatim>\<open>anthropic.messages.create\<close>, lines 19 to 23.\<close>

record create_params =
  model :: json
  max_tokens :: json
  messages :: json

text \<open>
  What \<^verbatim>\<open>await anthropic.messages.create(...)\<close> does: the promise resolves with a
  value, rejects with an error, or never settles (the handler sets no timeout).
\<close>

datatype outcome = Resolved json | Rejected js_error | Pending

type_synonym sdk = "client \<Rightarrow> create_params \<Rightarrow> outcome"

subsection \<open>The response object\<close>

text \<open>
  Express's \<^verbatim>\<open>res\<close>: the status code starts at 200, \<^verbatim>\<open>res.status(c)\<close> sets it and
  \<^verbatim>\<open>res.json(v)\<close> sends \<open>v\<close> as the body. \<open>sent\<close> is \<open>None\<close> until a body is sent.
\<close>

record response =
  statusCode :: nat
  sent :: "json option"

definition res0 :: response where
  "res0 = \<lparr>statusCode = 200, sent = None\<rparr>"

definition status :: "nat \<Rightarrow> response \<Rightarrow> response" where
  "status c r = r\<lparr>statusCode := c\<rparr>"

definition json_send :: "json \<Rightarrow> response \<Rightarrow> response" where
  "json_send v r = r\<lparr>sent := Some v\<rparr>"

subsection \<open>The handler\<close>

text \<open>
  The only state that outlives a request and that the handler touches is the process's
  error stream, to which \<^verbatim>\<open>console.error\<close> appends. One run of the handler yields the
  outbound calls it issued, in order, and the response.
\<close>

record process =
  stderr :: "(string \<times> js_error) list"

record exchange =
  calls :: "create_params list"
  res :: response

text \<open>Lines 26 to 29, the \<^verbatim>\<open>catch\<close> branch, after the calls \<open>cs\<close> were issued.\<close>

definition catch_branch :: "process \<Rightarrow> create_params list \<Rightarrow> js_error \<Rightarrow> process \<times> exchange" where
  "catch_branch p cs e =
     (p\<lparr>stderr := stderr p @ [(''Anthropic API error:'', e)]\<rparr>,
      \<lparr>calls = cs,
       res = json_send (JObj [(''error'', JStr (message e))]) (status 500 res0)\<rparr>)"

text \<open>The object literal of lines 19 to 23, from the three destructured values.\<close>

definition create_args :: "json \<Rightarrow> json \<Rightarrow> json \<Rightarrow> create_params" where
  "create_args m t ms =
     \<lparr>model = js_or m (JStr ''claude-sonnet-4-5-20250929''),
      max_tokens = js_or t (JNum 1200),
      messages = ms\<rparr>"

text \<open>
  Lines 15 to 30. The destructuring and the call are both inside the \<^verbatim>\<open>try\<close> block,
  so an error thrown by either reaches the \<^verbatim>\<open>catch\<close> branch.
\<close>

definition handler :: "client \<Rightarrow> sdk \<Rightarrow> process \<Rightarrow> json \<Rightarrow> process \<times> exchange" where
  "handler anth create p body =
     (case destructure body of
        Inl e \<Rightarrow> catch_branch p [] e
      | Inr (m, t, ms) \<Rightarrow>
          (case create anth (create_args m t ms) of
             Resolved response \<Rightarrow>
               (p, \<lparr>calls = [create_args m t ms], res = json_send response res0\<rparr>)
           | Rejected e \<Rightarrow> catch_branch p [create_args m t ms] e
           | Pending \<Rightarrow> (p, \<lparr>calls = [create_args m t ms], res = res0\<rparr>)))"

text \<open>
  Requests handled one after the other by the same process: each handler run starts from
  the process state the previous one left. Every request comes with the behaviour of the
  upstream at that time.
\<close>

fun serve :: "client \<Rightarrow> process \<Rightarrow> (sdk \<times> json) list \<Rightarrow> process \<times> exchange list" where
  "serve anth p [] = (p, [])"
| "serve anth p ((create, body) # rs) =
     (case handler anth create p body of
        (p', x) \<Rightarrow> (case serve anth p' rs of (p'', xs) \<Rightarrow> (p'', x # xs)))"

text \<open>Upstream behaviours used in the examples below.\<close>

definition resolves_with :: "json \<Rightarrow> sdk" where
  "resolves_with v anth args = Resolved v"

definition rejects_with :: "string \<Rightarrow> sdk" where
  "rejects_with msg anth args = Rejected \<lparr>message = msg\<rparr>"

definition never_settles :: sdk where
  "never_settles anth args = Pending"

section \<open>Properties of the handler\<close>

subsection \<open>What one run of the handler issues and answers\<close>

text \<open>
  The calls and the response of a run, read off the definition once: every theorem below
  goes through these two equations.
\<close>

lemma destructure_obj:
  "destructure (JObj kvs) =
     Inr (get_prop (JObj kvs) ''model'', get_prop (JObj kvs) ''max_tokens'',
          get_prop (JObj kvs) ''messages'')"
  by (simp add: destructure_def)

lemma destructure_cases:
  "destructure body =
     (if body = JUndefined then Inl (not_destructurable ''undefined'')
      else if body = JNull then Inl (not_destructurable ''null'')
      else Inr (get_prop body ''model'', get_prop body ''max_tokens'',
                get_prop body ''messages''))"
  by (cases body) (simp_all add: destructure_def)

lemma calls_handler:
  "calls (snd (handler anth create p body)) =
     (case destructure body of
        Inl e \<Rightarrow> []
      | Inr (m, t, ms) \<Rightarrow> [create_args m t ms])"
  by (simp add: handler_def catch_branch_def split: sum.split prod.split outcome.split)

lemma res_handler:
  "res (snd (handler anth create p body)) =
     (case destructure body of
        Inl e \<Rightarrow> \<lparr>statusCode = 500, sent = Some (JObj [(''error'', JStr (message e))])\<rparr>
      | Inr (m, t, ms) \<Rightarrow>
          (case create anth (create_args m t ms) of
             Resolved v \<Rightarrow> \<lparr>statusCode = 200, sent = Some v\<rparr>
           | Rejected e \<Rightarrow> \<lparr>statusCode = 500, sent = Some (JObj [(''error'', JStr (message e))])\<rparr>
           | Pending \<Rightarrow> \<lparr>statusCode = 200, sent = None\<rparr>))"
  by (simp add: handler_def catch_branch_def res0_def status_def json_send_def
           split: sum.split prod.split outcome.split)

subsection \<open>Defaults\<close>

text \<open>
  Claim C1. For a body that is a JSON object with a \<^verbatim>\<open>messages\<close> property, the handler
  issues one call, which carries that property's value; when \<^verbatim>\<open>model\<close> is not a
  property of the body the call's model is \<^verbatim>\<open>claude-sonnet-4-5-20250929\<close>, and when
  \<^verbatim>\<open>max_tokens\<close> is not a property of the body the call's limit is 1200. This holds
  whatever the upstream then does.
\<close>

theorem defaults_when_omitted:
  assumes "map_of kvs ''messages'' = Some ms"
  shows "\<exists>c. calls (snd (handler anth create p (JObj kvs))) = [c] \<and> messages c = ms \<and>
     (map_of kvs ''model'' = None \<longrightarrow> model c = JStr ''claude-sonnet-4-5-20250929'') \<and>
     (map_of kvs ''max_tokens'' = None \<longrightarrow> max_tokens c = JNum 1200)"
  using assms by (simp add: calls_handler destructure_obj create_args_def js_or_def)

text \<open>
  The scenario of the specification: the body \<^verbatim>\<open>{"messages":[{"role":"user","content":"hi"}]}\<close>
  yields one call with the two defaults and the messages as received.
\<close>

theorem defaults_when_omitted_witness:
  "map_of [(''messages'', JArr [JObj [(''role'', JStr ''user''), (''content'', JStr ''hi'')]])]
       ''messages'' = Some (JArr [JObj [(''role'', JStr ''user''), (''content'', JStr ''hi'')]]) \<and>
   calls (snd (handler \<lparr>apiKey = ''k''\<rparr> never_settles \<lparr>stderr = []\<rparr>
     (JObj [(''messages'', JArr [JObj [(''role'', JStr ''user''), (''content'', JStr ''hi'')]])]))) =
     [\<lparr>model = JStr ''claude-sonnet-4-5-20250929'', max_tokens = JNum 1200,
       messages = JArr [JObj [(''role'', JStr ''user''), (''content'', JStr ''hi'')]]\<rparr>]"
  using defaults_when_omitted [of "[(''messages'', JArr [JObj [(''role'', JStr ''user''), (''content'', JStr ''hi'')]])]"
      "JArr [JObj [(''role'', JStr ''user''), (''content'', JStr ''hi'')]]"
      "\<lparr>apiKey = ''k''\<rparr>" never_settles "\<lparr>stderr = []\<rparr>"]
  by auto

text \<open>
  Claim C5. When the body is a JSON object whose \<^verbatim>\<open>model\<close> is a non-empty string (an
  identifier) and whose \<^verbatim>\<open>max_tokens\<close> is a positive number, the one call issued carries
  exactly the supplied model and limit, next to the body's \<^verbatim>\<open>messages\<close>: neither default
  is substituted.
\<close>

theorem supplied_values_used:
  assumes "map_of kvs ''model'' = Some (JStr s)" and "s \<noteq> []"
    and "map_of kvs ''max_tokens'' = Some (JNum n)" and "0 < n"
  shows "calls (snd (handler anth create p (JObj kvs))) =
           [\<lparr>model = JStr s, max_tokens = JNum n,
             messages = get_prop (JObj kvs) ''messages''\<rparr>]"
  using assms by (simp add: calls_handler destructure_obj create_args_def js_or_def)

text \<open>The scenario \<^verbatim>\<open>{"model":"x","max_tokens":5,"messages":[]}\<close>.\<close>

theorem supplied_values_used_witness:
  "map_of [(''model'', JStr ''x''), (''max_tokens'', JNum 5), (''messages'', JArr [])] ''model''
     = Some (JStr ''x'') \<and> ''x'' \<noteq> [] \<and>
   map_of [(''model'', JStr ''x''), (''max_tokens'', JNum 5), (''messages'', JArr [])]
     ''max_tokens'' = Some (JNum 5) \<and> (0::rat) < 5 \<and>
   calls (snd (handler \<lparr>apiKey = ''k''\<rparr> never_settles \<lparr>stderr = []\<rparr>
     (JObj [(''model'', JStr ''x''), (''max_tokens'', JNum 5), (''messages'', JArr [])]))) =
     [\<lparr>model = JStr ''x'', max_tokens = JNum 5, messages = JArr []\<rparr>]"
  using supplied_values_used [of
      "[(''model'', JStr ''x''), (''max_tokens'', JNum 5), (''messages'', JArr [])]"
      "''x''" 5 "\<lparr>apiKey = ''k''\<rparr>" never_settles "\<lparr>stderr = []\<rparr>"]
  by simp

subsection \<open>Pass-through\<close>

text \<open>
  Claim C4. Every call the handler issues carries as \<^verbatim>\<open>messages\<close> the very value of the
  body's \<^verbatim>\<open>messages\<close> property; and for an object body that has the property, exactly one
  call is issued and it carries that value. Equality of \<open>json\<close> values is structural and,
  on arrays, element by element in order, so nothing is validated, filtered, reordered or
  transformed.
\<close>

theorem messages_forwarded_unmodified:
  "(\<forall>c \<in> set (calls (snd (handler anth create p body))).
       messages c = get_prop body ''messages'') \<and>
   (map_of kvs ''messages'' = Some ms \<longrightarrow>
       map messages (calls (snd (handler anth create p (JObj kvs)))) = [ms])"
  by (auto simp: calls_handler destructure_cases create_args_def)

text \<open>
  A body whose \<^verbatim>\<open>messages\<close> is not a well-formed conversation is forwarded all the
  same, in the order received.
\<close>

theorem messages_forwarded_unmodified_witness:
  "get_prop (JObj [(''messages'', JArr [JStr ''b'', JNull, JStr ''a''])]) ''messages''
     = JArr [JStr ''b'', JNull, JStr ''a''] \<and>
   map_of [(''messages'', JArr [JStr ''b'', JNull, JStr ''a''])] ''messages''
     = Some (JArr [JStr ''b'', JNull, JStr ''a'']) \<and>
   map messages (calls (snd (handler \<lparr>apiKey = ''k''\<rparr> never_settles \<lparr>stderr = []\<rparr>
        (JObj [(''messages'', JArr [JStr ''b'', JNull, JStr ''a''])])))) =
     [JArr [JStr ''b'', JNull, JStr ''a'']]"
  using messages_forwarded_unmodified [of "\<lparr>apiKey = ''k''\<rparr>" never_settles "\<lparr>stderr = []\<rparr>"
      "JObj [(''messages'', JArr [JStr ''b'', JNull, JStr ''a''])]"
      "[(''messages'', JArr [JStr ''b'', JNull, JStr ''a''])]"
      "JArr [JStr ''b'', JNull, JStr ''a'']"]
  by simp

subsection \<open>The two outcomes\<close>

text \<open>
  Claim C3. When a call issued by the handler resolves with a value, the response has
  status 200 and the value handed to \<^verbatim>\<open>res.json\<close> is that value, unchanged.
\<close>

theorem upstream_success_forwarded:
  assumes "c \<in> set (calls (snd (handler anth create p body)))"
    and "create anth c = Resolved v"
  shows "res (snd (handler anth create p body)) = \<lparr>statusCode = 200, sent = Some v\<rparr>"
  using assms by (auto simp: calls_handler res_handler split: sum.splits prod.splits)

theorem upstream_success_forwarded_witness:
  "\<lparr>model = JStr ''x'', max_tokens = JNum 5, messages = JArr []\<rparr>
     \<in> set (calls (snd (handler \<lparr>apiKey = ''k''\<rparr>
          (resolves_with (JObj [(''role'', JStr ''assistant''), (''content'', JArr [])]))
          \<lparr>stderr = []\<rparr>
          (JObj [(''model'', JStr ''x''), (''max_tokens'', JNum 5), (''messages'', JArr [])])))) \<and>
   resolves_with (JObj [(''role'', JStr ''assistant''), (''content'', JArr [])]) \<lparr>apiKey = ''k''\<rparr>
     \<lparr>model = JStr ''x'', max_tokens = JNum 5, messages = JArr []\<rparr>
     = Resolved (JObj [(''role'', JStr ''assistant''), (''content'', JArr [])]) \<and>
   res (snd (handler \<lparr>apiKey = ''k''\<rparr>
          (resolves_with (JObj [(''role'', JStr ''assistant''), (''content'', JArr [])]))
          \<lparr>stderr = []\<rparr>
          (JObj [(''model'', JStr ''x''), (''max_tokens'', JNum 5), (''messages'', JArr [])]))) =
     \<lparr>statusCode = 200,
      sent = Some (JObj [(''role'', JStr ''assistant''), (''content'', JArr [])])\<rparr>"
proof -
  let ?v = "JObj [(''role'', JStr ''assistant''), (''content'', JArr [])]"
  let ?c = "\<lparr>model = JStr ''x'', max_tokens = JNum 5, messages = JArr []\<rparr>"
  let ?h = "handler \<lparr>apiKey = ''k''\<rparr> (resolves_with ?v) \<lparr>stderr = []\<rparr>
              (JObj [(''model'', JStr ''x''), (''max_tokens'', JNum 5), (''messages'', JArr [])])"
  have issued: "?c \<in> set (calls (snd ?h))"
    by (simp add: calls_handler destructure_obj create_args_def js_or_def)
  have resolved: "resolves_with ?v \<lparr>apiKey = ''k''\<rparr> ?c = Resolved ?v"
    by (simp add: resolves_with_def)
  from upstream_success_forwarded [OF issued resolved] issued resolved
  show ?thesis by simp
qed

text \<open>
  Claim C2. When a call issued by the handler rejects with an error, the response has
  status 500 and its body is the object with the single key \<^verbatim>\<open>error\<close>, whose value is
  the error's message.
\<close>

theorem upstream_error_envelope:
  assumes "c \<in> set (calls (snd (handler anth create p body)))"
    and "create anth c = Rejected e"
  shows "res (snd (handler anth create p body)) =
           \<lparr>statusCode = 500, sent = Some (JObj [(''error'', JStr (message e))])\<rparr>"
  using assms by (auto simp: calls_handler res_handler split: sum.splits prod.splits)

text \<open>The scenario of an upstream that throws \<^verbatim>\<open>rate limited\<close>.\<close>

theorem upstream_error_envelope_witness:
  "\<lparr>model = JStr ''claude-sonnet-4-5-20250929'', max_tokens = JNum 1200, messages = JArr []\<rparr>
     \<in> set (calls (snd (handler \<lparr>apiKey = ''k''\<rparr> (rejects_with ''rate limited'') \<lparr>stderr = []\<rparr>
          (JObj [(''messages'', JArr [])])))) \<and>
   rejects_with ''rate limited'' \<lparr>apiKey = ''k''\<rparr>
     \<lparr>model = JStr ''claude-sonnet-4-5-20250929'', max_tokens = JNum 1200, messages = JArr []\<rparr>
     = Rejected \<lparr>message = ''rate limited''\<rparr> \<and>
   res (snd (handler \<lparr>apiKey = ''k''\<rparr> (rejects_with ''rate limited'') \<lparr>stderr = []\<rparr>
          (JObj [(''messages'', JArr [])]))) =
     \<lparr>statusCode = 500, sent = Some (JObj [(''error'', JStr ''rate limited'')])\<rparr>"
proof -
  let ?c = "\<lparr>model = JStr ''claude-sonnet-4-5-20250929'', max_tokens = JNum 1200,
              messages = JArr []\<rparr>"
  let ?h = "handler \<lparr>apiKey = ''k''\<rparr> (rejects_with ''rate limited'') \<lparr>stderr = []\<rparr>
              (JObj [(''messages'', JArr [])])"
  have issued: "?c \<in> set (calls (snd ?h))"
    by (simp add: calls_handler destructure_obj create_args_def js_or_def)
  have rejected: "rejects_with ''rate limited'' \<lparr>apiKey = ''k''\<rparr> ?c
      = Rejected \<lparr>message = ''rate limited''\<rparr>"
    by (simp add: rejects_with_def)
  from upstream_error_envelope [OF issued rejected] issued rejected
  show ?thesis by simp
qed

subsection \<open>Truthiness is not presence\<close>

text \<open>
  Claim C9. The defaulting tests truthiness, not presence: a \<^verbatim>\<open>max_tokens\<close> or
  \<^verbatim>\<open>model\<close> property that the caller supplied with a falsy value is replaced by the
  default. The falsy values a parsed JSON body can hold are \<^verbatim>\<open>null\<close>, \<^verbatim>\<open>false\<close>,
  the number 0 and the empty string; with any of them as \<^verbatim>\<open>max_tokens\<close> the call's
  limit is 1200, and with any of them as \<^verbatim>\<open>model\<close> the call's model is
  \<^verbatim>\<open>claude-sonnet-4-5-20250929\<close>. In particular \<^verbatim>\<open>max_tokens: 0\<close> gives 1200 and
  \<^verbatim>\<open>model: ""\<close> gives the default model.
\<close>

theorem falsy_fields_replaced:
  "(map_of kvs ''max_tokens'' \<in> {Some JNull, Some (JBool False), Some (JNum 0), Some (JStr '''')}
      \<longrightarrow> map max_tokens (calls (snd (handler anth create p (JObj kvs)))) = [JNum 1200]) \<and>
   (map_of kvs ''model'' \<in> {Some JNull, Some (JBool False), Some (JNum 0), Some (JStr '''')}
      \<longrightarrow> map model (calls (snd (handler anth create p (JObj kvs))))
            = [JStr ''claude-sonnet-4-5-20250929''])"
proof (intro conjI impI)
  assume "map_of kvs ''max_tokens'' \<in>
      {Some JNull, Some (JBool False), Some (JNum 0), Some (JStr '''')}"
  then have "js_or (get_prop (JObj kvs) ''max_tokens'') (JNum 1200) = JNum 1200"
    by (auto simp: js_or_def)
  then show "map max_tokens (calls (snd (handler anth create p (JObj kvs)))) = [JNum 1200]"
    by (simp add: calls_handler destructure_obj create_args_def)
next
  assume "map_of kvs ''model'' \<in>
      {Some JNull, Some (JBool False), Some (JNum 0), Some (JStr '''')}"
  then have "js_or (get_prop (JObj kvs) ''model'') (JStr ''claude-sonnet-4-5-20250929'')
      = JStr ''claude-sonnet-4-5-20250929''"
    by (auto simp: js_or_def)
  then show "map model (calls (snd (handler anth create p (JObj kvs))))
      = [JStr ''claude-sonnet-4-5-20250929'']"
    by (simp add: calls_handler destructure_obj create_args_def)
qed

text \<open>
  Four bodies that supply both properties, between them each falsy value on each
  property, starting with \<^verbatim>\<open>{"model":"","max_tokens":0,"messages":[]}\<close>: every call
  carries the two defaults.
\<close>

theorem falsy_fields_replaced_witness:
  "calls (snd (handler \<lparr>apiKey = ''k''\<rparr> never_settles \<lparr>stderr = []\<rparr>
     (JObj [(''model'', JStr ''''), (''max_tokens'', JNum 0), (''messages'', JArr [])]))) =
     [\<lparr>model = JStr ''claude-sonnet-4-5-20250929'', max_tokens = JNum 1200,
       messages = JArr []\<rparr>] \<and>
   calls (snd (handler \<lparr>apiKey = ''k''\<rparr> never_settles \<lparr>stderr = []\<rparr>
     (JObj [(''model'', JNull), (''max_tokens'', JBool False), (''messages'', JArr [])]))) =
     [\<lparr>model = JStr ''claude-sonnet-4-5-20250929'', max_tokens = JNum 1200,
       messages = JArr []\<rparr>] \<and>
   calls (snd (handler \<lparr>apiKey = ''k''\<rparr> never_settles \<lparr>stderr = []\<rparr>
     (JObj [(''model'', JBool False), (''max_tokens'', JNull), (''messages'', JArr [])]))) =
     [\<lparr>model = JStr ''claude-sonnet-4-5-20250929'', max_tokens = JNum 1200,
       messages = JArr []\<rparr>] \<and>
   calls (snd (handler \<lparr>apiKey = ''k''\<rparr> never_settles \<lparr>stderr = []\<rparr>
     (JObj [(''model'', JNum 0), (''max_tokens'', JStr ''''), (''messages'', JArr [])]))) =
     [\<lparr>model = JStr ''claude-sonnet-4-5-20250929'', max_tokens = JNum 1200,
       messages = JArr []\<rparr>]"
proof -
  let ?a = "\<lparr>apiKey = ''k''\<rparr>"
  let ?p = "\<lparr>stderr = []\<rparr>"
  let ?k1 = "[(''model'', JStr ''''), (''max_tokens'', JNum 0), (''messages'', JArr [])]"
  let ?k2 = "[(''model'', JNull), (''max_tokens'', JBool False), (''messages'', JArr [])]"
  let ?k3 = "[(''model'', JBool False), (''max_tokens'', JNull), (''messages'', JArr [])]"
  let ?k4 = "[(''model'', JNum 0), (''max_tokens'', JStr ''''), (''messages'', JArr [])]"
  have whole: "cs = [\<lparr>model = m, max_tokens = t, messages = ms\<rparr>]"
    if "map model cs = [m]" and "map max_tokens cs = [t]" and "map messages cs = [ms]"
    for cs m t ms
    using that by (cases cs) auto
  have ms: "map messages (calls (snd (handler ?a never_settles ?p (JObj kvs)))) =
      [get_prop (JObj kvs) ''messages'']" for kvs
    by (simp add: calls_handler destructure_obj create_args_def)
  have "calls (snd (handler ?a never_settles ?p (JObj ?k1))) =
      [\<lparr>model = JStr ''claude-sonnet-4-5-20250929'', max_tokens = JNum 1200,
        messages = JArr []\<rparr>]"
    using falsy_fields_replaced [of ?k1 ?a never_settles ?p] ms [of ?k1]
    by (intro whole) simp_all
  moreover
  have "calls (snd (handler ?a never_settles ?p (JObj ?k2))) =
      [\<lparr>model = JStr ''claude-sonnet-4-5-20250929'', max_tokens = JNum 1200,
        messages = JArr []\<rparr>]"
    using falsy_fields_replaced [of ?k2 ?a never_settles ?p] ms [of ?k2]
    by (intro whole) simp_all
  moreover
  have "calls (snd (handler ?a never_settles ?p (JObj ?k3))) =
      [\<lparr>model = JStr ''claude-sonnet-4-5-20250929'', max_tokens = JNum 1200,
        messages = JArr []\<rparr>]"
    using falsy_fields_replaced [of ?k3 ?a never_settles ?p] ms [of ?k3]
    by (intro whole) simp_all
  moreover
  have "calls (snd (handler ?a never_settles ?p (JObj ?k4))) =
      [\<lparr>model = JStr ''claude-sonnet-4-5-20250929'', max_tokens = JNum 1200,
        messages = JArr []\<rparr>]"
    using falsy_fields_replaced [of ?k4 ?a never_settles ?p] ms [of ?k4]
    by (intro whole) simp_all
  ultimately show ?thesis by blast
qed

subsection \<open>No validation of the body\<close>

text \<open>
  Claim C10. An object body without a \<^verbatim>\<open>messages\<close> property is not rejected: one call
  is still issued, with \<^verbatim>\<open>messages\<close> undefined, and the response is decided by the
  upstream alone: status 200 with its value when it resolves, the 500 envelope with the
  upstream error's own message when it rejects, and no response while it does not settle.
\<close>

theorem missing_messages_not_rejected:
  assumes "map_of kvs ''messages'' = None"
  shows "\<exists>c. calls (snd (handler anth create p (JObj kvs))) = [c] \<and>
     messages c = JUndefined \<and>
     (case create anth c of
        Resolved v \<Rightarrow>
          res (snd (handler anth create p (JObj kvs))) = \<lparr>statusCode = 200, sent = Some v\<rparr>
      | Rejected e \<Rightarrow>
          res (snd (handler anth create p (JObj kvs))) =
            \<lparr>statusCode = 500, sent = Some (JObj [(''error'', JStr (message e))])\<rparr>
      | Pending \<Rightarrow> sent (res (snd (handler anth create p (JObj kvs)))) = None)"
  using assms
  by (simp add: calls_handler res_handler destructure_obj create_args_def
        split: outcome.split)

text \<open>
  An upstream that refuses the call without messages: its message is what the caller
  reads.
\<close>

theorem missing_messages_not_rejected_witness:
  "map_of [(''model'', JStr ''x'')] ''messages'' = None \<and>
   calls (snd (handler \<lparr>apiKey = ''k''\<rparr> (rejects_with ''messages: Field required'')
      \<lparr>stderr = []\<rparr> (JObj [(''model'', JStr ''x'')]))) =
     [\<lparr>model = JStr ''x'', max_tokens = JNum 1200, messages = JUndefined\<rparr>] \<and>
   res (snd (handler \<lparr>apiKey = ''k''\<rparr> (rejects_with ''messages: Field required'')
      \<lparr>stderr = []\<rparr> (JObj [(''model'', JStr ''x'')]))) =
     \<lparr>statusCode = 500, sent = Some (JObj [(''error'', JStr ''messages: Field required'')])\<rparr>"
proof -
  let ?kvs = "[(''model'', JStr ''x'')]"
  let ?up = "rejects_with ''messages: Field required''"
  let ?h = "handler \<lparr>apiKey = ''k''\<rparr> ?up \<lparr>stderr = []\<rparr> (JObj ?kvs)"
  have absent: "map_of ?kvs ''messages'' = None" by simp
  have call: "calls (snd ?h) =
      [\<lparr>model = JStr ''x'', max_tokens = JNum 1200, messages = JUndefined\<rparr>]"
    by (simp add: calls_handler destructure_obj create_args_def js_or_def)
  from missing_messages_not_rejected [OF absent, of "\<lparr>apiKey = ''k''\<rparr>" ?up "\<lparr>stderr = []\<rparr>"]
  have "res (snd ?h) =
      \<lparr>statusCode = 500, sent = Some (JObj [(''error'', JStr ''messages: Field required'')])\<rparr>"
    by (simp add: call rejects_with_def)
  with absent call show ?thesis by blast
qed

subsection \<open>The number of outbound calls\<close>

text \<open>
  Claim C6, as amended. The handler never issues more than one call, whatever the upstream
  does: there is no retry. It issues exactly one for every body other than
  \<^verbatim>\<open>undefined\<close> and \<^verbatim>\<open>null\<close>, so for every parsed JSON object or array. For
  \<^verbatim>\<open>undefined\<close> and \<^verbatim>\<open>null\<close> the destructuring of line 17 throws inside the
  \<^verbatim>\<open>try\<close> block, before the call: no call is issued and the status is 500.
\<close>

theorem one_call_unless_body_nullish:
  "(if body = JUndefined \<or> body = JNull
    then calls (snd (handler anth create p body)) = [] \<and>
         statusCode (res (snd (handler anth create p body))) = 500
    else length (calls (snd (handler anth create p body))) = 1)"
  by (simp add: calls_handler res_handler destructure_cases)

text \<open>
  A rejected call is not repeated, and a \<^verbatim>\<open>null\<close> body reaches no call.
\<close>

theorem one_call_unless_body_nullish_witness:
  "length (calls (snd (handler \<lparr>apiKey = ''k''\<rparr> (rejects_with ''overloaded'') \<lparr>stderr = []\<rparr>
      (JObj [(''messages'', JArr [])])))) = 1 \<and>
   calls (snd (handler \<lparr>apiKey = ''k''\<rparr> (rejects_with ''overloaded'') \<lparr>stderr = []\<rparr> JNull)) = []"
  using one_call_unless_body_nullish [of "JObj [(''messages'', JArr [])]" "\<lparr>apiKey = ''k''\<rparr>"
      "rejects_with ''overloaded''" "\<lparr>stderr = []\<rparr>"]
    one_call_unless_body_nullish [of JNull "\<lparr>apiKey = ''k''\<rparr>" "rejects_with ''overloaded''" "\<lparr>stderr = []\<rparr>"]
  by simp

text \<open>
  Claim C6 as stated, exactly one call for every request, fails for a request whose
  body was not parsed (\<^verbatim>\<open>req.body\<close> undefined): the handler runs and issues no call.
\<close>

theorem no_call_without_body:
  "length (calls (snd (handler \<lparr>apiKey = ''k''\<rparr> (resolves_with JNull) \<lparr>stderr = []\<rparr>
      JUndefined))) = 0"
  by (simp add: calls_handler destructure_def)

section \<open>The credential\<close>

text \<open>
  Claim C7, as amended. The client's key is the value of \<^verbatim>\<open>ANTHROPIC_API_KEY\<close> when the
  variable is set to a non-empty string; it is the literal of the source when the variable
  is unset or set to the empty string, which \<^verbatim>\<open>||\<close> treats alike.
\<close>

theorem credential_choice:
  "(env ''ANTHROPIC_API_KEY'' = Some v \<and> v \<noteq> [] \<longrightarrow> apiKey (anthropic literal env) = v) \<and>
   (env ''ANTHROPIC_API_KEY'' = None \<or> env ''ANTHROPIC_API_KEY'' = Some [] \<longrightarrow>
      apiKey (anthropic literal env) = literal)"
  by (auto simp: anthropic_def env_or_def)

text \<open>
  A variable that is set and non-empty is used; with the variable unset the literal is.
\<close>

theorem credential_choice_witness:
  "map_of [(''ANTHROPIC_API_KEY'', ''key-from-env'')] ''ANTHROPIC_API_KEY'' = Some ''key-from-env'' \<and>
   ''key-from-env'' \<noteq> [] \<and>
   apiKey (anthropic ''key-in-source'' (map_of [(''ANTHROPIC_API_KEY'', ''key-from-env'')]))
     = ''key-from-env'' \<and>
   map_of [(''PATH'', ''/usr/bin'')] ''ANTHROPIC_API_KEY'' = None \<and>
   apiKey (anthropic ''key-in-source'' (map_of [(''PATH'', ''/usr/bin'')])) = ''key-in-source''"
  using credential_choice [of "map_of [(''ANTHROPIC_API_KEY'', ''key-from-env'')]"
      "''key-from-env''" "''key-in-source''"]
    credential_choice [of "map_of [(''PATH'', ''/usr/bin'')]" "[]" "''key-in-source''"]
  by simp

text \<open>
  Claim C7 as stated, a variable that is set is used, fails for a variable set to the
  empty string: the key is then not the variable's value.
\<close>

theorem empty_variable_not_used:
  "map_of [(''ANTHROPIC_API_KEY'', '''')] ''ANTHROPIC_API_KEY'' = Some '''' \<and>
   apiKey (anthropic ''key-in-source'' (map_of [(''ANTHROPIC_API_KEY'', '''')])) \<noteq> ''''"
  by (simp add: anthropic_def env_or_def)

section \<open>Independence of requests\<close>

text \<open>
  What a run yields does not depend on the process state it starts from, and depends on
  the upstream only through its outcome at the call the run issues. The error stream is
  the one thing a run changes; the requests of a sequence are answered as each would be
  alone.
\<close>

lemma snd_handler_process:
  "snd (handler anth create p body) = snd (handler anth create q body)"
  by (simp add: handler_def catch_branch_def split: sum.split prod.split outcome.split)

lemma snd_handler_upstream:
  assumes "\<forall>c \<in> set (calls (snd (handler a1 create1 p body))). create1 a1 c = create2 a2 c"
  shows "snd (handler a1 create1 p body) = snd (handler a2 create2 p body)"
proof (cases "destructure body")
  case (Inl e)
  then show ?thesis
    by (simp add: handler_def catch_branch_def)
next
  case (Inr triple)
  obtain m t ms where triple: "triple = (m, t, ms)"
    by (cases triple) auto
  from Inr triple have "calls (snd (handler a1 create1 p body)) = [create_args m t ms]"
    by (simp add: calls_handler)
  with assms have "create1 a1 (create_args m t ms) = create2 a2 (create_args m t ms)"
    by simp
  with Inr triple show ?thesis
    by (simp add: handler_def)
qed

lemma stderr_handler:
  "stderr (fst (handler anth create p body)) =
     stderr p @ (case destructure body of
                   Inl e \<Rightarrow> [(''Anthropic API error:'', e)]
                 | Inr (m, t, ms) \<Rightarrow>
                     (case create anth (create_args m t ms) of
                        Rejected e \<Rightarrow> [(''Anthropic API error:'', e)]
                      | _ \<Rightarrow> []))"
  by (simp add: handler_def catch_branch_def split: sum.split prod.split outcome.split)

lemma serve_exchanges:
  "snd (serve anth p rs) = map (\<lambda>(create, body). snd (handler anth create q body)) rs"
proof (induction rs arbitrary: p)
  case Nil
  show ?case by simp
next
  case (Cons r rs)
  obtain create body where r: "r = (create, body)"
    by (cases r) auto
  obtain p' x where h: "handler anth create p body = (p', x)"
    by (cases "handler anth create p body") auto
  obtain p'' xs where s: "serve anth p' rs = (p'', xs)"
    by (cases "serve anth p' rs") auto
  from h have "x = snd (handler anth create q body)"
    using snd_handler_process [of anth create p body q] by simp
  moreover from s Cons.IH [of p']
  have "xs = map (\<lambda>(create, body). snd (handler anth create q body)) rs"
    by simp
  ultimately show ?case
    using r h s by simp
qed

text \<open>
  Claim C8. Take two runs of the handler on the same body, in two processes that have each
  served an arbitrary sequence of earlier requests, and let the upstream give the same
  outcome to the call issued. Then the two runs issue the same calls and give the same
  response, status and body: nothing of the earlier requests and nothing of the process
  state reaches the response.
\<close>

theorem handler_deterministic_independent:
  assumes "\<forall>c \<in> set (calls (snd (handler anthA createA pA body))).
             createA anthA c = createB anthB c"
  shows "snd (handler anthA createA (fst (serve anthA pA rsA)) body) =
         snd (handler anthB createB (fst (serve anthB pB rsB)) body)"
proof -
  have "snd (handler anthA createA (fst (serve anthA pA rsA)) body) =
        snd (handler anthA createA pA body)"
    by (rule snd_handler_process)
  also from assms have "\<dots> = snd (handler anthB createB pA body)"
    by (rule snd_handler_upstream)
  also have "\<dots> = snd (handler anthB createB (fst (serve anthB pB rsB)) body)"
    by (rule snd_handler_process)
  finally show ?thesis .
qed

text \<open>
  The same request after no history and after two failed requests that both wrote to the
  error stream.
\<close>

theorem handler_deterministic_independent_witness:
  "snd (handler \<lparr>apiKey = ''k''\<rparr> (rejects_with ''rate limited'')
          (fst (serve \<lparr>apiKey = ''k''\<rparr> \<lparr>stderr = []\<rparr> []))
          (JObj [(''messages'', JArr [])])) =
   snd (handler \<lparr>apiKey = ''k''\<rparr> (rejects_with ''rate limited'')
          (fst (serve \<lparr>apiKey = ''k''\<rparr> \<lparr>stderr = []\<rparr>
                  [(rejects_with ''overloaded'', JObj [(''model'', JStr ''x'')]),
                   (resolves_with JNull, JUndefined)]))
          (JObj [(''messages'', JArr [])])) \<and>
   length (stderr (fst (serve \<lparr>apiKey = ''k''\<rparr> \<lparr>stderr = []\<rparr>
                  [(rejects_with ''overloaded'', JObj [(''model'', JStr ''x'')]),
                   (resolves_with JNull, JUndefined)]))) = 2"
proof -
  let ?a = "\<lparr>apiKey = ''k''\<rparr>"
  let ?p = "\<lparr>stderr = []\<rparr>"
  let ?up = "rejects_with ''rate limited''"
  let ?rs = "[(rejects_with ''overloaded'', JObj [(''model'', JStr ''x'')]),
              (resolves_with JNull, JUndefined)]"
  have same: "\<forall>c \<in> set (calls (snd (handler ?a ?up ?p (JObj [(''messages'', JArr [])])))).
      ?up ?a c = ?up ?a c"
    by simp
  have log: "length (stderr (fst (serve ?a ?p ?rs))) = 2"
    by (simp add: handler_def destructure_def catch_branch_def rejects_with_def
          resolves_with_def create_args_def js_or_def)
  from handler_deterministic_independent [where anthA = ?a and createA = ?up and pA = ?p
      and body = "JObj [(''messages'', JArr [])]" and anthB = ?a and createB = ?up
      and rsA = "[]" and pB = ?p and rsB = ?rs, OF same] log
  show ?thesis by simp
qed

end
